theory Spec2Isabelle
  imports Main
begin

section \<open>Data model (shared/schema.ts)\<close>

text \<open>
  The \<open>user_role\<close> enum of the schema, and one row of the \<open>users\<close> table.  Nullable
  columns are options (\<open>None\<close> is SQL NULL); \<open>id\<close> is the primary key and \<open>role\<close> is
  NOT NULL.  Timestamps are epoch seconds.
\<close>

datatype role = Admin | Pentester | Client

record user =
  user_id :: string
  email :: "string option"
  username :: "string option"
  password :: "string option"
  firstName :: "string option"
  lastName :: "string option"
  profileImageUrl :: "string option"
  role :: role
  organization :: "string option"
  isActive :: "bool option"
  createdAt :: "int option"
  updatedAt :: "int option"

text \<open>The \<open>users\<close> table: its rows, in insertion order.\<close>

type_synonym db = "user list"

text \<open>
  A JavaScript value that may be \<open>undefined\<close> (key absent), \<open>null\<close> or a proper value,
  as the members of the identity claims and of an \<open>UpsertUser\<close> object are.
\<close>

datatype 'a js = Undefined | Null | Value 'a

text \<open>Truthiness of an optional string (\<open>if (s)\<close>): present and not empty.\<close>

fun str_truthy :: "string option \<Rightarrow> bool" where
  "str_truthy None = False"
| "str_truthy (Some s) = (s \<noteq> [])"

text \<open>Truthiness of an optional boolean column: \<open>null\<close> is falsy.\<close>

fun bool_truthy :: "bool option \<Rightarrow> bool" where
  "bool_truthy None = False"
| "bool_truthy (Some b) = b"

section \<open>Storage (server/storage.ts)\<close>

datatype error =
    UniqueViolation
  | UnknownUserType
  | UserNotFound
  | UnknownSessionDataType

text \<open>\<open>select().from(users).where(eq(users.id, id))\<close>, first row.\<close>

definition getUser :: "db \<Rightarrow> string \<Rightarrow> user option" where
  "getUser d i = find (\<lambda>u. user_id u = i) d"

text \<open>\<open>select().from(users).where(eq(users.username, username))\<close>, first row.\<close>

definition getUserByUsername :: "db \<Rightarrow> string \<Rightarrow> user option" where
  "getUserByUsername d n = find (\<lambda>u. username u = Some n) d"

definition getUsersByRole :: "db \<Rightarrow> role \<Rightarrow> user list" where
  "getUsersByRole d r = filter (\<lambda>u. role u = r) d"

text \<open>
  \<open>validatePassword\<close>: false when the row has no password (absent or empty), otherwise
  the verdict of \<open>bcrypt.compare(password, user.password)\<close>.  The comparison is the
  library's; it is a parameter \<open>cmp\<close> of the model.
\<close>

definition validatePassword :: "(string \<Rightarrow> string \<Rightarrow> bool) \<Rightarrow> user \<Rightarrow> string \<Rightarrow> bool" where
  "validatePassword cmp u pw =
     (case password u of
        None \<Rightarrow> False
      | Some h \<Rightarrow> if h = [] then False else cmp pw h)"

section \<open>Credential validator (server/localAuth.ts)\<close>

text \<open>
  The verify callback of the local strategy.  \<open>done(null, false, {message})\<close> is
  \<open>Inl message\<close>, \<open>done(null, user)\<close> is \<open>Inr user\<close>.
\<close>

definition localVerify ::
  "(string \<Rightarrow> string \<Rightarrow> bool) \<Rightarrow> db \<Rightarrow> string \<Rightarrow> string \<Rightarrow> string + user" where
  "localVerify cmp d uname pw =
     (case getUserByUsername d uname of
        None \<Rightarrow> Inl ''Invalid username or password''
      | Some u \<Rightarrow>
          if \<not> validatePassword cmp u pw then Inl ''Invalid username or password''
          else if \<not> bool_truthy (isActive u) then Inl ''Account is disabled''
          else Inr u)"


section \<open>Writes to the users table (server/storage.ts, shared/schema.ts)\<close>

text \<open>
  The \<open>UpsertUser\<close> object (the picked insert schema).  Both callers always pass \<open>id\<close>;
  every other member may be \<open>undefined\<close>.
\<close>

record UpsertUser =
  up_id :: string
  up_email :: "string js"
  up_firstName :: "string js"
  up_lastName :: "string js"
  up_profileImageUrl :: "string js"
  up_role :: "role option"

text \<open>
  A member of \<open>values(...)\<close>: \<open>undefined\<close> takes the column default (NULL for these
  columns).  A member of \<open>set: {...}\<close>: \<open>undefined\<close> leaves the column as it is.
\<close>

fun ins_col :: "'a js \<Rightarrow> 'a option" where
  "ins_col Undefined = None"
| "ins_col Null = None"
| "ins_col (Value v) = Some v"

fun set_col :: "'a js \<Rightarrow> 'a option \<Rightarrow> 'a option" where
  "set_col Undefined old = old"
| "set_col Null old = None"
| "set_col (Value v) old = Some v"

text \<open>
  The \<open>unique()\<close> constraint on \<open>email\<close>: a non-NULL email that another row (another id)
  already has makes the statement fail.
\<close>

definition email_conflict :: "db \<Rightarrow> string \<Rightarrow> string option \<Rightarrow> bool" where
  "email_conflict d i e =
     (case e of
        None \<Rightarrow> False
      | Some a \<Rightarrow> list_ex (\<lambda>u. user_id u \<noteq> i \<and> email u = Some a) d)"

text \<open>
  \<open>insert(users).values(userData).onConflictDoUpdate({target: users.id,
  set: {...userData, updatedAt: new Date()}}).returning()\<close> at time \<open>now\<close>.
\<close>

definition storage_upsertUser :: "int \<Rightarrow> UpsertUser \<Rightarrow> db \<Rightarrow> error + (user \<times> db)" where
  "storage_upsertUser now ud d =
     (case getUser d (up_id ud) of
        None \<Rightarrow>
          (let row = \<lparr>user_id = up_id ud,
                      email = ins_col (up_email ud),
                      username = None,
                      password = None,
                      firstName = ins_col (up_firstName ud),
                      lastName = ins_col (up_lastName ud),
                      profileImageUrl = ins_col (up_profileImageUrl ud),
                      role = (case up_role ud of None \<Rightarrow> Client | Some r \<Rightarrow> r),
                      organization = None,
                      isActive = Some True,
                      createdAt = Some now,
                      updatedAt = Some now\<rparr>
           in if email_conflict d (up_id ud) (email row) then Inl UniqueViolation
              else Inr (row, d @ [row]))
      | Some old \<Rightarrow>
          (let row = old\<lparr>email := set_col (up_email ud) (email old),
                         firstName := set_col (up_firstName ud) (firstName old),
                         lastName := set_col (up_lastName ud) (lastName old),
                         profileImageUrl := set_col (up_profileImageUrl ud) (profileImageUrl old),
                         role := (case up_role ud of None \<Rightarrow> role old | Some r \<Rightarrow> r),
                         updatedAt := Some now\<rparr>
           in if email_conflict d (up_id ud) (email row) then Inl UniqueViolation
              else Inr (row, map (\<lambda>r. if user_id r = up_id ud then row else r) d)))"

text \<open>
  \<open>createUserWithPassword\<close>.  \<open>hash\<close> is \<open>bcrypt.hash(_, 12)\<close> and \<open>new_id\<close> the value
  \<open>gen_random_uuid()\<close> gives the row; both are the environment's.
\<close>

record NewLocalUser =
  n_username :: string
  n_password :: string
  n_email :: "string option"
  n_firstName :: "string option"
  n_lastName :: "string option"
  n_role :: role

definition createUserWithPassword ::
  "(string \<Rightarrow> string) \<Rightarrow> string \<Rightarrow> int \<Rightarrow> NewLocalUser \<Rightarrow> db \<Rightarrow> error + (user \<times> db)" where
  "createUserWithPassword hash new_id now userData d =
     (let hashedPassword = hash (n_password userData);
          row = \<lparr>user_id = new_id,
                 email = n_email userData,
                 username = Some (n_username userData),
                 password = Some hashedPassword,
                 firstName = n_firstName userData,
                 lastName = n_lastName userData,
                 profileImageUrl = None,
                 role = n_role userData,
                 organization = None,
                 isActive = Some True,
                 createdAt = Some now,
                 updatedAt = Some now\<rparr>
      in if getUser d new_id \<noteq> None \<or> email_conflict d new_id (email row)
         then Inl UniqueViolation
         else Inr (row, d @ [row]))"

section \<open>Principals and the session codec (authSession.ts)\<close>

text \<open>
  The identity claims (\<open>tokens.claims()\<close>), a token endpoint response, and the user
  object of a federated login (\<open>createOIDCUser\<close>).
\<close>

record id_claims =
  c_sub :: string
  c_email :: "string js"
  c_first_name :: "string js"
  c_last_name :: "string js"
  c_profile_image_url :: "string js"
  c_exp :: "int option"

record tokens =
  t_claims :: "id_claims option"
  t_access_token :: string
  t_refresh_token :: "string option"

record oidc_user =
  claims :: "id_claims option"
  access_token :: string
  refresh_token :: "string option"
  expires_at :: "int option"

text \<open>
  \<open>req.user\<close> is either the object of a federated login or a row of the users table.
  The federated object has no \<open>id\<close> member; a row has neither \<open>claims\<close> nor
  \<open>access_token\<close>.
\<close>

datatype principal = OIDCUser oidc_user | LocalUser user

record OIDCSessionData =
  s_claims :: "id_claims option"
  s_access_token :: string
  s_refresh_token :: "string option"
  s_expires_at :: "int option"

datatype AuthSessionData =
    SessOIDC OIDCSessionData
  | SessLocal string
  | SessOther

definition createOIDCUser :: "tokens \<Rightarrow> oidc_user" where
  "createOIDCUser tk =
     \<lparr>claims = t_claims tk,
      access_token = t_access_token tk,
      refresh_token = t_refresh_token tk,
      expires_at = (case t_claims tk of None \<Rightarrow> None | Some c \<Rightarrow> c_exp c)\<rparr>"

text \<open>\<open>passport.serializeUser\<close>: the shape of the object decides the variant.\<close>

fun serializeUser :: "principal \<Rightarrow> error + AuthSessionData" where
  "serializeUser (OIDCUser u) =
     (if claims u \<noteq> None \<and> access_token u \<noteq> [] then
        Inr (SessOIDC \<lparr>s_claims = claims u,
                       s_access_token = access_token u,
                       s_refresh_token = refresh_token u,
                       s_expires_at = expires_at u\<rparr>)
      else Inl UnknownUserType)"
| "serializeUser (LocalUser u) =
     (if user_id u \<noteq> [] then Inr (SessLocal (user_id u))
      else Inl UnknownUserType)"

text \<open>\<open>passport.deserializeUser\<close>: the \<open>type\<close> tag decides; the local variant reads the row.\<close>

fun deserializeUser :: "db \<Rightarrow> AuthSessionData \<Rightarrow> error + principal" where
  "deserializeUser d (SessOIDC s) =
     Inr (OIDCUser \<lparr>claims = s_claims s,
                    access_token = s_access_token s,
                    refresh_token = s_refresh_token s,
                    expires_at = s_expires_at s\<rparr>)"
| "deserializeUser d (SessLocal uid) =
     (case getUser d uid of
        None \<Rightarrow> Inl UserNotFound
      | Some u \<Rightarrow> Inr (LocalUser u))"
| "deserializeUser d SessOther = Inl UnknownSessionDataType"

text \<open>\<open>updateUserSession\<close>: the in-place update of the federated user object.\<close>

definition updateUserSession :: "oidc_user \<Rightarrow> tokens \<Rightarrow> oidc_user" where
  "updateUserSession u tokenResponse =
     (let newClaims = t_claims tokenResponse
      in u\<lparr>claims := newClaims,
            access_token := t_access_token tokenResponse,
            refresh_token :=
              (if str_truthy (t_refresh_token tokenResponse)
               then t_refresh_token tokenResponse else refresh_token u),
            expires_at := (case newClaims of None \<Rightarrow> None | Some c \<Rightarrow> c_exp c)\<rparr>)"

text \<open>\<open>getUserId\<close> on \<open>req.user\<close>.\<close>

fun getUserId :: "principal option \<Rightarrow> string option" where
  "getUserId None = None"
| "getUserId (Some (OIDCUser u)) =
     (case claims u of
        None \<Rightarrow> None
      | Some c \<Rightarrow> if c_sub c \<noteq> [] then Some (c_sub c) else None)"
| "getUserId (Some (LocalUser u)) =
     (if user_id u \<noteq> [] then Some (user_id u) else None)"


section \<open>HTTP responses\<close>

text \<open>
  A JSON body as \<open>res.json\<close> sends it, and a response: its status and its body.
\<close>

datatype json =
    JNull
  | JBool bool
  | JNum int
  | JStr string
  | JArr "json list"
  | JObj "(string \<times> json) list"

record response =
  status :: nat
  body :: json

text \<open>Whether a member named \<open>k\<close> occurs anywhere in a JSON value.\<close>

fun json_has_key :: "string \<Rightarrow> json \<Rightarrow> bool" where
  "json_has_key k JNull = False"
| "json_has_key k (JBool b) = False"
| "json_has_key k (JNum n) = False"
| "json_has_key k (JStr s) = False"
| "json_has_key k (JArr xs) = list_ex (json_has_key k) xs"
| "json_has_key k (JObj kvs) = list_ex (\<lambda>kv. fst kv = k \<or> json_has_key k (snd kv)) kvs"

definition message :: "string \<Rightarrow> json" where
  "message m = JObj [(''message'', JStr m)]"

fun json_str :: "string option \<Rightarrow> json" where
  "json_str None = JNull"
| "json_str (Some s) = JStr s"

fun json_bool :: "bool option \<Rightarrow> json" where
  "json_bool None = JNull"
| "json_bool (Some b) = JBool b"

fun json_time :: "int option \<Rightarrow> json" where
  "json_time None = JNull"
| "json_time (Some t) = JNum t"

fun role_name :: "role \<Rightarrow> string" where
  "role_name Admin = ''admin''"
| "role_name Pentester = ''pentester''"
| "role_name Client = ''client''"

text \<open>\<open>res.json(user)\<close> on a row: every column of the row is a member.\<close>

definition user_json :: "user \<Rightarrow> json" where
  "user_json u =
     JObj [(''id'', JStr (user_id u)),
           (''email'', json_str (email u)),
           (''username'', json_str (username u)),
           (''password'', json_str (password u)),
           (''firstName'', json_str (firstName u)),
           (''lastName'', json_str (lastName u)),
           (''profileImageUrl'', json_str (profileImageUrl u)),
           (''role'', JStr (role_name (role u))),
           (''organization'', json_str (organization u)),
           (''isActive'', json_bool (isActive u)),
           (''createdAt'', json_time (createdAt u)),
           (''updatedAt'', json_time (updatedAt u))]"

text \<open>\<open>const { password: _, ...userWithoutPassword } = newUser\<close>.\<close>

definition userWithoutPassword :: "user \<Rightarrow> json" where
  "userWithoutPassword u =
     (case user_json u of
        JObj kvs \<Rightarrow> JObj (filter (\<lambda>kv. fst kv \<noteq> ''password'') kvs)
      | j \<Rightarrow> j)"

section \<open>Access control gate (authSession.ts)\<close>

text \<open>
  The identity provider as the gate sees it.  \<open>getOidcConfig\<close> is memoized: with a cached
  configuration it answers without a network call, otherwise it runs the discovery, which
  may throw (\<open>None\<close>).  \<open>refreshTokenGrant\<close> may throw (\<open>None\<close>) as well.
\<close>

type_synonym config = string

record provider =
  cached_config :: "config option"
  discovery :: "config option"
  refreshTokenGrant :: "config \<Rightarrow> string \<Rightarrow> tokens option"

datatype net_call = DiscoveryCall | TokenEndpointCall string

definition getOidcConfig :: "provider \<Rightarrow> config option \<times> net_call list" where
  "getOidcConfig env =
     (case cached_config env of
        Some c \<Rightarrow> (Some c, [])
      | None \<Rightarrow> (discovery env, [DiscoveryCall]))"

datatype verdict = Next | Respond response

text \<open>
  \<open>unifiedIsAuthenticated\<close> at clock reading \<open>now\<close> (seconds) on \<open>req.user\<close>.  It returns
  the verdict, \<open>req.user\<close> after the call, and the network calls it made.
\<close>

definition unifiedIsAuthenticated ::
  "provider \<Rightarrow> int \<Rightarrow> principal option \<Rightarrow> verdict \<times> principal option \<times> net_call list" where
  "unifiedIsAuthenticated env now req_user =
     (case req_user of
        None \<Rightarrow> (Respond \<lparr>status = 401, body = message ''Unauthorized''\<rparr>, req_user, [])
      | Some (OIDCUser u) \<Rightarrow>
          if claims u \<noteq> None \<and> access_token u \<noteq> [] then
            (case expires_at u of
               None \<Rightarrow> (Respond \<lparr>status = 401, body = message ''Unauthorized''\<rparr>, req_user, [])
             | Some e \<Rightarrow>
                 if e = 0 then
                   (Respond \<lparr>status = 401, body = message ''Unauthorized''\<rparr>, req_user, [])
                 else if now \<le> e then (Next, req_user, [])
                 else
                   (case refresh_token u of
                      None \<Rightarrow>
                        (Respond \<lparr>status = 401, body = message ''Unauthorized''\<rparr>, req_user, [])
                    | Some refreshToken \<Rightarrow>
                        if refreshToken = [] then
                          (Respond \<lparr>status = 401, body = message ''Unauthorized''\<rparr>, req_user, [])
                        else
                          (case getOidcConfig env of
                             (None, calls) \<Rightarrow>
                               (Respond \<lparr>status = 401, body = message ''Session expired''\<rparr>,
                                req_user, calls)
                           | (Some cfg, calls) \<Rightarrow>
                               (case refreshTokenGrant env cfg refreshToken of
                                  None \<Rightarrow>
                                    (Respond \<lparr>status = 401, body = message ''Session expired''\<rparr>,
                                     req_user, calls @ [TokenEndpointCall refreshToken])
                                | Some tokenResponse \<Rightarrow>
                                    (Next, Some (OIDCUser (updateUserSession u tokenResponse)),
                                     calls @ [TokenEndpointCall refreshToken])))))
          else (Respond \<lparr>status = 401, body = message ''Unauthorized''\<rparr>, req_user, [])
      | Some (LocalUser u) \<Rightarrow>
          if user_id u \<noteq> [] then (Next, req_user, [])
          else (Respond \<lparr>status = 401, body = message ''Unauthorized''\<rparr>, req_user, []))"

text \<open>The gate run \<open>n\<close> times in succession on the same request user.\<close>

fun gate_times ::
  "provider \<Rightarrow> int \<Rightarrow> nat \<Rightarrow> principal option \<Rightarrow> principal option \<times> net_call list" where
  "gate_times env now 0 req_user = (req_user, [])"
| "gate_times env now (Suc n) req_user =
     (case unifiedIsAuthenticated env now req_user of
        (v, req_user', calls) \<Rightarrow>
          (case gate_times env now n req_user' of
             (req_user'', calls') \<Rightarrow> (req_user'', calls @ calls')))"


section \<open>Federated login (replitAuth.ts)\<close>

text \<open>
  \<open>upsertUser(claims, intendedRole)\<close> in deployment mode \<open>node_env\<close>
  (\<open>process.env.NODE_ENV\<close>) at time \<open>now\<close>.
\<close>

definition upsertUser ::
  "string \<Rightarrow> int \<Rightarrow> id_claims \<Rightarrow> role option \<Rightarrow> db \<Rightarrow> error + db" where
  "upsertUser node_env now cl intendedRole d =
     (let userId = c_sub cl
      in case getUser d userId of
           Some existingUser \<Rightarrow>
             map_sum (\<lambda>e. e) snd
               (storage_upsertUser now
                  \<lparr>up_id = userId,
                   up_email = c_email cl,
                   up_firstName = c_first_name cl,
                   up_lastName = c_last_name cl,
                   up_profileImageUrl = c_profile_image_url cl,
                   up_role = Some (role existingUser)\<rparr> d)
         | None \<Rightarrow>
             (let existingUsers = getUsersByRole d Admin;
                  isFirstUser = (length existingUsers = 0);
                  r = (if isFirstUser then Admin
                       else case intendedRole of
                              Some ir \<Rightarrow> if node_env = ''development'' then ir else Client
                            | None \<Rightarrow> Client)
              in map_sum (\<lambda>e. e) snd
                   (storage_upsertUser now
                      \<lparr>up_id = userId,
                       up_email = c_email cl,
                       up_firstName = c_first_name cl,
                       up_lastName = c_last_name cl,
                       up_profileImageUrl = c_profile_image_url cl,
                       up_role = Some r\<rparr> d)))"

section \<open>Routes (routes.ts)\<close>

text \<open>\<open>['admin', 'pentester', 'client'].includes(role)\<close>, giving the role it names.\<close>

definition parse_role :: "string \<Rightarrow> role option" where
  "parse_role s =
     (if s = ''admin'' then Some Admin
      else if s = ''pentester'' then Some Pentester
      else if s = ''client'' then Some Client
      else None)"

text \<open>\<open>a || b\<close> on optional strings.\<close>

definition or_else :: "string option \<Rightarrow> string option \<Rightarrow> string option" where
  "or_else a b = (if str_truthy a then a else b)"

text \<open>
  \<open>handleDevLogin\<close> (registered in development mode only) on the \<open>userId\<close> and \<open>role\<close>
  members of the request body and query.  It returns the response, the table and the
  session record that \<open>req.login\<close> stores.
\<close>

definition handleDevLogin ::
  "int \<Rightarrow> string option \<Rightarrow> string option \<Rightarrow> string option \<Rightarrow> string option \<Rightarrow> db
     \<Rightarrow> response \<times> db \<times> AuthSessionData option" where
  "handleDevLogin now body_userId query_userId body_role query_role d =
     (let userId = (case or_else (or_else body_userId query_userId) (Some ''dev-user'') of
                      Some s \<Rightarrow> s | None \<Rightarrow> ''dev-user'');
          rl = or_else body_role query_role;
          found =
            (case getUser d userId of
               Some u \<Rightarrow> Inr (u, d)
             | None \<Rightarrow>
                 (let existingUsers = getUsersByRole d Admin;
                      isFirstUser = (length existingUsers = 0);
                      userRole =
                        (case (case rl of None \<Rightarrow> None | Some s \<Rightarrow> parse_role s) of
                           Some r \<Rightarrow> r
                         | None \<Rightarrow> if isFirstUser then Admin else Client)
                  in storage_upsertUser now
                       \<lparr>up_id = userId,
                        up_email = Value (userId @ ''@dev.local''),
                        up_firstName = Value ''Dev'',
                        up_lastName = Value ''User'',
                        up_profileImageUrl = Null,
                        up_role = Some userRole\<rparr> d))
      in case found of
           Inl e \<Rightarrow> (\<lparr>status = 500, body = message ''Login failed''\<rparr>, d, None)
         | Inr (u, d') \<Rightarrow>
             (case serializeUser (LocalUser u) of
                Inl e \<Rightarrow> (\<lparr>status = 500, body = message ''Login session failed''\<rparr>, d', None)
              | Inr s \<Rightarrow>
                  (\<lparr>status = 200,
                    body = JObj [(''message'', JStr ''Login successful''),
                                 (''user'', user_json u)]\<rparr>, d', Some s)))"

text \<open>
  \<open>POST /api/local-login\<close>.  The local strategy reads \<open>username\<close> and \<open>password\<close> from the
  request body and, when the body has none, from the query; it fails with
  \<open>Missing credentials\<close> before it calls the verify callback when either is missing or
  empty.  The route returns the response and the session record stored.
\<close>

definition local_login ::
  "(string \<Rightarrow> string \<Rightarrow> bool) \<Rightarrow> db
     \<Rightarrow> string option \<Rightarrow> string option \<Rightarrow> string option \<Rightarrow> string option
     \<Rightarrow> response \<times> AuthSessionData option" where
  "local_login cmp d body_username query_username body_password query_password =
     (let uname = or_else body_username query_username;
          pw = or_else body_password query_password
      in case (case (uname, pw) of
                 (Some un, Some p) \<Rightarrow>
                   if un = [] \<or> p = [] then Inl ''Missing credentials''
                   else localVerify cmp d un p
               | _ \<Rightarrow> Inl ''Missing credentials'') of
           Inl info \<Rightarrow>
             (\<lparr>status = 401,
               body = message (if info \<noteq> [] then info else ''Invalid credentials'')\<rparr>, None)
         | Inr u \<Rightarrow>
             (case serializeUser (LocalUser u) of
                Inl e \<Rightarrow> (\<lparr>status = 500, body = message ''Login failed''\<rparr>, None)
              | Inr s \<Rightarrow>
                  (\<lparr>status = 200,
                    body = JObj [(''message'', JStr ''Login successful''),
                                 (''user'', JObj [(''id'', JStr (user_id u)),
                                                  (''username'', json_str (username u)),
                                                  (''role'', JStr (role_name (role u))),
                                                  (''firstName'', json_str (firstName u)),
                                                  (''lastName'', json_str (lastName u))])]\<rparr>,
                   Some s)))"

text \<open>
  \<open>GET /api/auth/user\<close> behind the gate.  A lookup without an id finds no row.
\<close>

definition get_auth_user :: "provider \<Rightarrow> int \<Rightarrow> db \<Rightarrow> principal option \<Rightarrow> response" where
  "get_auth_user env now d req_user =
     (case unifiedIsAuthenticated env now req_user of
        (Respond r, _, _) \<Rightarrow> r
      | (Next, req_user', _) \<Rightarrow>
          (let userId =
                 (case req_user' of
                    None \<Rightarrow> None
                  | Some (OIDCUser u) \<Rightarrow>
                      if claims u \<noteq> None then getUserId req_user' else None
                  | Some (LocalUser u) \<Rightarrow> Some (user_id u))
           in case (case userId of None \<Rightarrow> None | Some i \<Rightarrow> getUser d i) of
                None \<Rightarrow> \<lparr>status = 404, body = message ''User not found''\<rparr>
              | Some u \<Rightarrow> \<lparr>status = 200, body = user_json u\<rparr>))"

text \<open>\<open>GET /api/users\<close> behind the gate, with the \<open>role\<close> member of the query.\<close>

definition get_users ::
  "provider \<Rightarrow> int \<Rightarrow> db \<Rightarrow> principal option \<Rightarrow> string option \<Rightarrow> response" where
  "get_users env now d req_user query_role =
     (case unifiedIsAuthenticated env now req_user of
        (Respond r, _, _) \<Rightarrow> r
      | (Next, req_user', _) \<Rightarrow>
          (let currentUser = (case getUserId req_user' of None \<Rightarrow> None | Some i \<Rightarrow> getUser d i)
           in if map_option role currentUser \<noteq> Some Admin then
                \<lparr>status = 403, body = message ''Access denied. Admin role required.''\<rparr>
              else
                (let users =
                       (case (case query_role of None \<Rightarrow> None | Some s \<Rightarrow> parse_role s) of
                          Some r \<Rightarrow> getUsersByRole d r
                        | None \<Rightarrow>
                            getUsersByRole d Admin @ getUsersByRole d Pentester
                              @ getUsersByRole d Client)
                 in \<lparr>status = 200, body = JArr (map user_json users)\<rparr>)))"

text \<open>\<open>POST /api/admin/create-user\<close> behind the gate, on the members of the body.\<close>

record CreateUserBody =
  b_username :: "string option"
  b_password :: "string option"
  b_email :: "string option"
  b_firstName :: "string option"
  b_lastName :: "string option"
  b_role :: "string option"

definition admin_create_user ::
  "(string \<Rightarrow> string) \<Rightarrow> string \<Rightarrow> provider \<Rightarrow> int \<Rightarrow> db \<Rightarrow> principal option
     \<Rightarrow> CreateUserBody \<Rightarrow> response \<times> db" where
  "admin_create_user hash new_id env now d req_user b =
     (case unifiedIsAuthenticated env now req_user of
        (Respond r, _, _) \<Rightarrow> (r, d)
      | (Next, req_user', _) \<Rightarrow>
          (let currentUser = (case getUserId req_user' of None \<Rightarrow> None | Some i \<Rightarrow> getUser d i)
           in if map_option role currentUser \<noteq> Some Admin then
                (\<lparr>status = 403, body = message ''Access denied. Admin role required.''\<rparr>, d)
              else
                (case (b_username b, b_password b, b_role b) of
                   (Some un, Some pw, Some rl) \<Rightarrow>
                     if un = [] \<or> pw = [] \<or> rl = [] then
                       (\<lparr>status = 400,
                         body = message ''Username, password, and role are required''\<rparr>, d)
                     else if rl \<noteq> ''pentester'' \<and> rl \<noteq> ''client'' then
                       (\<lparr>status = 400, body = message ''Role must be pentester or client''\<rparr>, d)
                     else if getUserByUsername d un \<noteq> None then
                       (\<lparr>status = 409, body = message ''Username already exists''\<rparr>, d)
                     else
                       (case createUserWithPassword hash new_id now
                               \<lparr>n_username = un,
                                n_password = pw,
                                n_email = b_email b,
                                n_firstName = b_firstName b,
                                n_lastName = b_lastName b,
                                n_role = (if rl = ''pentester'' then Pentester else Client)\<rparr> d of
                          Inl e \<Rightarrow>
                            (\<lparr>status = 500, body = message ''Failed to create user''\<rparr>, d)
                        | Inr (newUser, d') \<Rightarrow>
                            (\<lparr>status = 201,
                              body = JObj [(''message'', JStr ''User created successfully''),
                                           (''user'', userWithoutPassword newUser)]\<rparr>, d'))
                 | _ \<Rightarrow>
                     (\<lparr>status = 400,
                       body = message ''Username, password, and role are required''\<rparr>, d))))"


section \<open>Example data\<close>

text \<open>
  A small users table and identity provider on which the theorems below are instantiated.
  \<open>example_cmp\<close> stands for the hash comparison: the stored hash of \<open>pw\<close> is \<open>bcrypt:pw\<close>.
\<close>

definition example_cmp :: "string \<Rightarrow> string \<Rightarrow> bool" where
  "example_cmp pw h = (h = ''bcrypt:'' @ pw)"

definition example_hash :: "string \<Rightarrow> string" where
  "example_hash pw = ''bcrypt:'' @ pw"

definition carol :: user where
  "carol =
     \<lparr>user_id = ''sub-carol'', email = Some ''carol@idp.example'', username = None,
      password = None, firstName = Some ''Carol'', lastName = None, profileImageUrl = None,
      role = Admin, organization = None, isActive = Some True,
      createdAt = Some 1700000000, updatedAt = Some 1700000000\<rparr>"

definition alice :: user where
  "alice =
     \<lparr>user_id = ''u-alice'', email = None, username = Some ''alice'',
      password = Some ''bcrypt:secret123'', firstName = Some ''Alice'', lastName = None,
      profileImageUrl = None, role = Pentester, organization = None, isActive = Some True,
      createdAt = Some 1700000100, updatedAt = Some 1700000100\<rparr>"

definition bob :: user where
  "bob =
     \<lparr>user_id = ''u-bob'', email = None, username = Some ''bob'',
      password = Some ''bcrypt:hunter2'', firstName = None, lastName = None,
      profileImageUrl = None, role = Client, organization = None, isActive = Some False,
      createdAt = Some 1700000200, updatedAt = Some 1700000200\<rparr>"

definition erin :: user where
  "erin =
     \<lparr>user_id = ''u-erin'', email = None, username = Some ''erin'',
      password = None, firstName = None, lastName = None,
      profileImageUrl = None, role = Client, organization = None, isActive = Some True,
      createdAt = Some 1700000300, updatedAt = Some 1700000300\<rparr>"

definition example_db :: db where
  "example_db = [carol, alice, bob]"

definition carol_claims :: id_claims where
  "carol_claims =
     \<lparr>c_sub = ''sub-carol'', c_email = Value ''carol@new.example'',
      c_first_name = Value ''Caroline'', c_last_name = Undefined,
      c_profile_image_url = Null, c_exp = Some 1800000000\<rparr>"

definition dave_claims :: id_claims where
  "dave_claims =
     \<lparr>c_sub = ''sub-dave'', c_email = Value ''dave@idp.example'',
      c_first_name = Value ''Dave'', c_last_name = Undefined,
      c_profile_image_url = Null, c_exp = Some 1800000000\<rparr>"

definition carol_tokens :: tokens where
  "carol_tokens =
     \<lparr>t_claims = Some carol_claims, t_access_token = ''at-1'',
      t_refresh_token = Some ''rt-1''\<rparr>"

definition renewed_tokens :: tokens where
  "renewed_tokens =
     \<lparr>t_claims = Some (carol_claims\<lparr>c_exp := Some 1800003600\<rparr>), t_access_token = ''at-2'',
      t_refresh_token = None\<rparr>"

definition provider_down :: provider where
  "provider_down =
     \<lparr>cached_config = None, discovery = None, refreshTokenGrant = (\<lambda>cfg rt. None)\<rparr>"

definition provider_revoked :: provider where
  "provider_revoked =
     \<lparr>cached_config = Some ''issuer'', discovery = Some ''issuer'',
      refreshTokenGrant = (\<lambda>cfg rt. None)\<rparr>"

definition provider_ok :: provider where
  "provider_ok =
     \<lparr>cached_config = Some ''issuer'', discovery = Some ''issuer'',
      refreshTokenGrant = (\<lambda>cfg rt. if rt = ''rt-1'' then Some renewed_tokens else None)\<rparr>"


section \<open>Lookups\<close>

lemma getUser_id: "getUser d i = Some u \<Longrightarrow> user_id u = i"
  unfolding getUser_def by (induction d) (auto split: if_splits)

lemma getUser_mem: "u \<in> set d \<Longrightarrow> \<exists>u'. getUser d (user_id u) = Some u'"
  unfolding getUser_def by (induction d) auto

lemma getUserByUsername_mem: "getUserByUsername d n = Some u \<Longrightarrow> u \<in> set d"
  unfolding getUserByUsername_def by (induction d) (auto split: if_splits)

lemma localVerify_mem: "localVerify cmp d n pw = Inr u \<Longrightarrow> u \<in> set d"
  unfolding localVerify_def
  by (auto split: option.splits if_splits dest: getUserByUsername_mem)

section \<open>Session codec\<close>

text \<open>
  Claim C4.  A federated principal built by \<open>createOIDCUser\<close> from tokens that carry claims
  and a non-empty access token is serialized and read back as the very same principal, so
  \<open>claims.sub\<close> is kept.  A row returned by the credential validator, with a non-empty id,
  is serialized to its id and read back as a row with that id.  Both steps succeed.
\<close>

theorem session_roundtrip:
  "(t_claims tk \<noteq> None \<and> t_access_token tk \<noteq> []
      \<longrightarrow> (\<exists>s. serializeUser (OIDCUser (createOIDCUser tk)) = Inr s
               \<and> deserializeUser d s = Inr (OIDCUser (createOIDCUser tk))))
   \<and> (localVerify cmp d n pw = Inr u \<and> user_id u \<noteq> []
      \<longrightarrow> (\<exists>s u'. serializeUser (LocalUser u) = Inr s
               \<and> deserializeUser d s = Inr (LocalUser u')
               \<and> user_id u' = user_id u))"
proof (intro conjI impI)
  assume "t_claims tk \<noteq> None \<and> t_access_token tk \<noteq> []"
  then show "\<exists>s. serializeUser (OIDCUser (createOIDCUser tk)) = Inr s
               \<and> deserializeUser d s = Inr (OIDCUser (createOIDCUser tk))"
    by (simp add: createOIDCUser_def)
next
  assume h: "localVerify cmp d n pw = Inr u \<and> user_id u \<noteq> []"
  then have "u \<in> set d" by (blast dest: localVerify_mem)
  then obtain u' where g: "getUser d (user_id u) = Some u'"
    using getUser_mem by blast
  then have "user_id u' = user_id u" by (rule getUser_id)
  with h g show "\<exists>s u'. serializeUser (LocalUser u) = Inr s
               \<and> deserializeUser d s = Inr (LocalUser u')
               \<and> user_id u' = user_id u"
    by simp
qed

theorem session_roundtrip_witness:
  "(\<exists>s. serializeUser (OIDCUser (createOIDCUser carol_tokens)) = Inr s
       \<and> deserializeUser example_db s = Inr (OIDCUser (createOIDCUser carol_tokens)))
   \<and> (\<exists>s u'. serializeUser (LocalUser alice) = Inr s
       \<and> deserializeUser example_db s = Inr (LocalUser u')
       \<and> user_id u' = user_id alice)"
proof -
  have t: "t_claims carol_tokens \<noteq> None \<and> t_access_token carol_tokens \<noteq> []"
    by (simp add: carol_tokens_def)
  have v: "localVerify example_cmp example_db ''alice'' ''secret123'' = Inr alice"
    by (simp add: localVerify_def getUserByUsername_def validatePassword_def
        example_cmp_def example_db_def carol_def alice_def)
  have i: "user_id alice \<noteq> []" by (simp add: alice_def)
  show ?thesis
    using session_roundtrip [of carol_tokens example_db example_cmp "''alice''"
        "''secret123''" alice] t v i
    by simp
qed

section \<open>Token refresh and the access control gate\<close>

text \<open>
  Claim C5.  The federated principal has expired (\<open>e < now\<close>) and carries a refresh token;
  the exchange fails, in the discovery or at the token endpoint.  The gate answers 401,
  with the message \<open>Session expired\<close> whenever an exchange was attempted (a stored expiry of
  0 is rejected before any exchange), and \<open>req.user\<close> is the principal as it was: claims,
  access token, refresh token and expiry are all unchanged.
\<close>

theorem refresh_failure_no_mutation:
  assumes "claims u \<noteq> None" and "access_token u \<noteq> []"
    and "expires_at u = Some e" and "e < now"
    and "refresh_token u = Some rt" and "rt \<noteq> []"
    and "fst (getOidcConfig env) = None
         \<or> (\<exists>cfg. fst (getOidcConfig env) = Some cfg \<and> refreshTokenGrant env cfg rt = None)"
  shows "fst (unifiedIsAuthenticated env now (Some (OIDCUser u)))
           = Respond \<lparr>status = 401,
                      body = message (if e = 0 then ''Unauthorized'' else ''Session expired'')\<rparr>
         \<and> fst (snd (unifiedIsAuthenticated env now (Some (OIDCUser u)))) = Some (OIDCUser u)"
  using assms
  by (cases "getOidcConfig env") (auto simp add: unifiedIsAuthenticated_def)

theorem refresh_failure_no_mutation_witness:
  "unifiedIsAuthenticated provider_down 1800000001 (Some (OIDCUser (createOIDCUser carol_tokens)))
     = (Respond \<lparr>status = 401, body = message ''Session expired''\<rparr>,
        Some (OIDCUser (createOIDCUser carol_tokens)), [DiscoveryCall])
   \<and> unifiedIsAuthenticated provider_revoked 1800000001
        (Some (OIDCUser (createOIDCUser carol_tokens)))
     = (Respond \<lparr>status = 401, body = message ''Session expired''\<rparr>,
        Some (OIDCUser (createOIDCUser carol_tokens)), [TokenEndpointCall ''rt-1''])"
proof -
  let ?u = "createOIDCUser carol_tokens"
  have c: "claims ?u \<noteq> None" and a: "access_token ?u \<noteq> []"
    and e: "expires_at ?u = Some 1800000000" and r: "refresh_token ?u = Some ''rt-1''"
    by (simp_all add: createOIDCUser_def carol_tokens_def carol_claims_def)
  have lt: "(1800000000::int) < 1800000001" and ne: "''rt-1'' \<noteq> []" by simp_all
  have d1: "fst (getOidcConfig provider_down) = None
         \<or> (\<exists>cfg. fst (getOidcConfig provider_down) = Some cfg
               \<and> refreshTokenGrant provider_down cfg ''rt-1'' = None)"
    by (simp add: getOidcConfig_def provider_down_def)
  have d2: "fst (getOidcConfig provider_revoked) = None
         \<or> (\<exists>cfg. fst (getOidcConfig provider_revoked) = Some cfg
               \<and> refreshTokenGrant provider_revoked cfg ''rt-1'' = None)"
    by (simp add: getOidcConfig_def provider_revoked_def)
  have g1: "snd (snd (unifiedIsAuthenticated provider_down 1800000001 (Some (OIDCUser ?u))))
              = [DiscoveryCall]"
    using c a e r
    by (simp add: unifiedIsAuthenticated_def getOidcConfig_def provider_down_def)
  have g2: "snd (snd (unifiedIsAuthenticated provider_revoked 1800000001 (Some (OIDCUser ?u))))
              = [TokenEndpointCall ''rt-1'']"
    using c a e r
    by (simp add: unifiedIsAuthenticated_def getOidcConfig_def provider_revoked_def)
  show ?thesis
    using refresh_failure_no_mutation [OF c a e lt r ne d1]
      refresh_failure_no_mutation [OF c a e lt r ne d2] g1 g2
    by (simp add: prod_eq_iff)
qed

text \<open>
  Claim C6.  The principal has expired (\<open>e < now\<close>) and has no refresh token (absent or
  empty).  The gate answers 401 and makes no network call: neither a discovery nor a call
  of the token endpoint.  The principal is unchanged.
\<close>

theorem expired_without_refresh_token:
  assumes "expires_at u = Some e" and "e < now" and "\<not> str_truthy (refresh_token u)"
  shows "unifiedIsAuthenticated env now (Some (OIDCUser u))
           = (Respond \<lparr>status = 401, body = message ''Unauthorized''\<rparr>, Some (OIDCUser u), [])"
  using assms
  by (cases "refresh_token u") (auto simp add: unifiedIsAuthenticated_def)

theorem expired_without_refresh_token_witness:
  "unifiedIsAuthenticated provider_ok 1800000001
     (Some (OIDCUser ((createOIDCUser carol_tokens)\<lparr>refresh_token := None\<rparr>)))
   = (Respond \<lparr>status = 401, body = message ''Unauthorized''\<rparr>,
      Some (OIDCUser ((createOIDCUser carol_tokens)\<lparr>refresh_token := None\<rparr>)), [])"
proof -
  let ?u = "(createOIDCUser carol_tokens)\<lparr>refresh_token := None\<rparr>"
  have e: "expires_at ?u = Some 1800000000"
    by (simp add: createOIDCUser_def carol_tokens_def carol_claims_def)
  have lt: "(1800000000::int) < 1800000001" by simp
  have r: "\<not> str_truthy (refresh_token ?u)" by simp
  show ?thesis
    using expired_without_refresh_token [OF e lt r, of provider_ok] by simp
qed

lemma fresh_gate_once:
  assumes "claims u \<noteq> None" and "access_token u \<noteq> []"
    and "expires_at u = Some e" and "0 < now" and "now \<le> e"
  shows "unifiedIsAuthenticated env now (Some (OIDCUser u)) = (Next, Some (OIDCUser u), [])"
  using assms by (auto simp add: unifiedIsAuthenticated_def)

text \<open>
  Claim C7.  The clock reads a time after the epoch (\<open>0 < now\<close>) and the federated
  principal has not expired (\<open>now \<le> e\<close>).  The gate lets the request pass, leaves the
  principal as it is and makes no network call; run \<open>n\<close> times in succession it gives the
  same principal, with no network call, as run once.
\<close>

theorem fresh_gate_idempotent:
  assumes "claims u \<noteq> None" and "access_token u \<noteq> []"
    and "expires_at u = Some e" and "0 < now" and "now \<le> e"
  shows "unifiedIsAuthenticated env now (Some (OIDCUser u)) = (Next, Some (OIDCUser u), [])
         \<and> gate_times env now n (Some (OIDCUser u)) = (Some (OIDCUser u), [])
         \<and> gate_times env now n (Some (OIDCUser u)) = gate_times env now 1 (Some (OIDCUser u))"
proof -
  have once: "unifiedIsAuthenticated env now (Some (OIDCUser u)) = (Next, Some (OIDCUser u), [])"
    using assms by (rule fresh_gate_once)
  have many: "gate_times env now k (Some (OIDCUser u)) = (Some (OIDCUser u), [])" for k
    by (induction k) (simp_all add: once)
  show ?thesis
    using once many [of n] many [of 1] by simp
qed

theorem fresh_gate_idempotent_witness:
  "unifiedIsAuthenticated provider_down 1700001000 (Some (OIDCUser (createOIDCUser carol_tokens)))
     = (Next, Some (OIDCUser (createOIDCUser carol_tokens)), [])
   \<and> gate_times provider_down 1700001000 5 (Some (OIDCUser (createOIDCUser carol_tokens)))
     = (Some (OIDCUser (createOIDCUser carol_tokens)), [])"
proof -
  let ?u = "createOIDCUser carol_tokens"
  have c: "claims ?u \<noteq> None" and a: "access_token ?u \<noteq> []"
    and e: "expires_at ?u = Some 1800000000"
    by (simp_all add: createOIDCUser_def carol_tokens_def carol_claims_def)
  have p: "(0::int) < 1700001000" and le: "(1700001000::int) \<le> 1800000000" by simp_all
  show ?thesis
    using fresh_gate_idempotent [OF c a e p le, of provider_down 5] by simp
qed

text \<open>
  Claim C8.  The federated principal has expired (its stored expiry is not 0, which is
  rejected before any exchange) and its refresh exchange succeeds with the token
  response \<open>tr\<close>.  The gate lets the request pass with the principal updated by
  \<open>updateUserSession\<close>: claims, access token and expiry are those of the response, and the
  refresh token is the response's when the response has one (present and not empty), and
  the stored one otherwise.
\<close>

theorem refresh_success_overwrites:
  assumes "claims u \<noteq> None" and "access_token u \<noteq> []"
    and "expires_at u = Some e" and "e \<noteq> 0" and "e < now"
    and "refresh_token u = Some rt" and "rt \<noteq> []"
    and "fst (getOidcConfig env) = Some cfg" and "refreshTokenGrant env cfg rt = Some tr"
  shows "\<exists>u'. unifiedIsAuthenticated env now (Some (OIDCUser u))
                 = (Next, Some (OIDCUser u'), snd (getOidcConfig env) @ [TokenEndpointCall rt])
             \<and> u' = updateUserSession u tr
             \<and> claims u' = t_claims tr
             \<and> access_token u' = t_access_token tr
             \<and> expires_at u' = (case t_claims tr of None \<Rightarrow> None | Some c \<Rightarrow> c_exp c)
             \<and> refresh_token u'
                 = (if str_truthy (t_refresh_token tr) then t_refresh_token tr
                    else refresh_token u)"
  using assms
  by (cases "getOidcConfig env")
     (auto simp add: unifiedIsAuthenticated_def updateUserSession_def Let_def)

theorem refresh_success_overwrites_witness:
  "unifiedIsAuthenticated provider_ok 1800000001 (Some (OIDCUser (createOIDCUser carol_tokens)))
     = (Next,
        Some (OIDCUser \<lparr>claims = Some (carol_claims\<lparr>c_exp := Some 1800003600\<rparr>),
                        access_token = ''at-2'', refresh_token = Some ''rt-1'',
                        expires_at = Some 1800003600\<rparr>),
        [TokenEndpointCall ''rt-1''])"
proof -
  let ?u = "createOIDCUser carol_tokens"
  have c: "claims ?u \<noteq> None" and a: "access_token ?u \<noteq> []"
    and e: "expires_at ?u = Some 1800000000" and r: "refresh_token ?u = Some ''rt-1''"
    by (simp_all add: createOIDCUser_def carol_tokens_def carol_claims_def)
  have nz: "(1800000000::int) \<noteq> 0" and lt: "(1800000000::int) < 1800000001"
    and ne: "''rt-1'' \<noteq> []" by simp_all
  have g: "fst (getOidcConfig provider_ok) = Some ''issuer''"
    by (simp add: getOidcConfig_def provider_ok_def)
  have t: "refreshTokenGrant provider_ok ''issuer'' ''rt-1'' = Some renewed_tokens"
    by (simp add: provider_ok_def)
  have s: "snd (getOidcConfig provider_ok) = []"
    by (simp add: getOidcConfig_def provider_ok_def)
  show ?thesis
    using refresh_success_overwrites [OF c a e nz lt r ne g t, of ] s
    by (auto simp add: updateUserSession_def renewed_tokens_def createOIDCUser_def
        carol_tokens_def Let_def)
qed

section \<open>Local credentials\<close>

lemma localVerify_has_hash:
  "localVerify cmp d n pw = Inr u \<Longrightarrow> \<exists>h. password u = Some h \<and> h \<noteq> [] \<and> cmp pw h"
  unfolding localVerify_def validatePassword_def
  by (auto split: option.splits if_splits)

text \<open>
  Claim C9.  When the username resolves to a row whose stored hash is present, not empty
  and matched by the password under the hash comparison, and whose active flag is true,
  the validator returns that row.  When the username is unknown, and when no stored hash
  of the row matches the password, it fails with one and the same message.  When the hash
  matches and the active flag is not true, it fails with the message
  \<open>Account is disabled\<close>, which differs from the former.
\<close>

theorem credential_validator:
  "(getUserByUsername d n = Some u \<and> password u = Some h \<and> h \<noteq> [] \<and> cmp pw h
      \<and> isActive u = Some True
      \<longrightarrow> localVerify cmp d n pw = Inr u)
   \<and> (getUserByUsername d n = None
      \<longrightarrow> localVerify cmp d n pw = Inl ''Invalid username or password'')
   \<and> (getUserByUsername d n = Some u \<and> (\<forall>k. password u = Some k \<and> k \<noteq> [] \<longrightarrow> \<not> cmp pw k)
      \<longrightarrow> localVerify cmp d n pw = Inl ''Invalid username or password'')
   \<and> (getUserByUsername d n = Some u \<and> password u = Some h \<and> h \<noteq> [] \<and> cmp pw h
      \<and> isActive u \<noteq> Some True
      \<longrightarrow> localVerify cmp d n pw = Inl ''Account is disabled''
          \<and> localVerify cmp d n pw \<noteq> Inl ''Invalid username or password'')"
  unfolding localVerify_def validatePassword_def
  by (cases "isActive u"; cases "password u") auto

theorem credential_validator_witness:
  "localVerify example_cmp example_db ''alice'' ''secret123'' = Inr alice
   \<and> localVerify example_cmp example_db ''mallory'' ''secret123''
       = Inl ''Invalid username or password''
   \<and> localVerify example_cmp example_db ''alice'' ''guess''
       = Inl ''Invalid username or password''
   \<and> localVerify example_cmp example_db ''bob'' ''hunter2'' = Inl ''Account is disabled''"
proof -
  have a: "getUserByUsername example_db ''alice'' = Some alice"
    by (simp add: getUserByUsername_def example_db_def carol_def alice_def)
  have b: "getUserByUsername example_db ''bob'' = Some bob"
    by (simp add: getUserByUsername_def example_db_def carol_def alice_def bob_def)
  have m: "getUserByUsername example_db ''mallory'' = None"
    by (simp add: getUserByUsername_def example_db_def carol_def alice_def bob_def)
  have pa: "password alice = Some ''bcrypt:secret123''" and ia: "isActive alice = Some True"
    by (simp_all add: alice_def)
  have pb: "password bob = Some ''bcrypt:hunter2''" and ib: "isActive bob \<noteq> Some True"
    by (simp_all add: bob_def)
  have ca: "example_cmp ''secret123'' ''bcrypt:secret123''"
    and cb: "example_cmp ''hunter2'' ''bcrypt:hunter2''"
    by (simp_all add: example_cmp_def)
  have ga: "\<forall>k. password alice = Some k \<and> k \<noteq> [] \<longrightarrow> \<not> example_cmp ''guess'' k"
    by (simp add: alice_def example_cmp_def)
  have ne: "''bcrypt:secret123'' \<noteq> []" "''bcrypt:hunter2'' \<noteq> []" by simp_all
  note t = credential_validator [where cmp = example_cmp and d = example_db]
  have c1: "localVerify example_cmp example_db ''alice'' ''secret123'' = Inr alice"
    using t [where n = "''alice''" and u = alice and h = "''bcrypt:secret123''"
        and pw = "''secret123''"] a pa ne ca ia by blast
  have c2: "localVerify example_cmp example_db ''mallory'' ''secret123''
       = Inl ''Invalid username or password''"
    using t [where n = "''mallory''" and pw = "''secret123''"] m by blast
  have c3: "localVerify example_cmp example_db ''alice'' ''guess''
       = Inl ''Invalid username or password''"
    using t [where n = "''alice''" and u = alice and pw = "''guess''"] a ga by blast
  have c4: "localVerify example_cmp example_db ''bob'' ''hunter2'' = Inl ''Account is disabled''"
    using t [where n = "''bob''" and u = bob and h = "''bcrypt:hunter2''"
        and pw = "''hunter2''"] b pb ne cb ib by blast
  show ?thesis using c1 c2 c3 c4 by blast
qed

text \<open>
  Claim C10.  For a row without a password hash, password validation is false for every
  candidate password, and the validator never returns that row, whatever table, username
  and password it is run on; every row the validator returns has a hash.  A local login
  that is answered 200 or stores a session has validated the request's username and
  password to a row with a hash, and the session is that row's id.  A login under the
  username of a row without a hash is answered 401 and stores no session.
\<close>

theorem no_hash_no_local_login:
  "(password u = None \<longrightarrow> \<not> validatePassword cmp u pw \<and> localVerify cmp d n pw \<noteq> Inr u)
   \<and> (localVerify cmp d n pw = Inr u \<longrightarrow> password u \<noteq> None)
   \<and> (status (fst (local_login cmp d bu qu bp qp)) = 200
        \<or> snd (local_login cmp d bu qu bp qp) \<noteq> None
      \<longrightarrow> (\<exists>n' pw' u'. or_else bu qu = Some n' \<and> or_else bp qp = Some pw'
             \<and> localVerify cmp d n' pw' = Inr u' \<and> password u' \<noteq> None
             \<and> snd (local_login cmp d bu qu bp qp) = Some (SessLocal (user_id u'))))
   \<and> (password u = None \<and> getUserByUsername d n = Some u \<and> or_else bu qu = Some n
      \<longrightarrow> status (fst (local_login cmp d bu qu bp qp)) = 401
          \<and> snd (local_login cmp d bu qu bp qp) = None)"
proof (intro conjI impI)
  assume "password u = None"
  then show "\<not> validatePassword cmp u pw" by (simp add: validatePassword_def)
next
  assume "password u = None"
  then show "localVerify cmp d n pw \<noteq> Inr u"
    using localVerify_has_hash [of cmp d n pw u] by auto
next
  assume "localVerify cmp d n pw = Inr u"
  then show "password u \<noteq> None"
    using localVerify_has_hash [of cmp d n pw u] by auto
next
  assume h: "status (fst (local_login cmp d bu qu bp qp)) = 200
        \<or> snd (local_login cmp d bu qu bp qp) \<noteq> None"
  then obtain n' pw' u' where e: "or_else bu qu = Some n'" "or_else bp qp = Some pw'"
      "localVerify cmp d n' pw' = Inr u'"
      "snd (local_login cmp d bu qu bp qp) = Some (SessLocal (user_id u'))"
    by (auto simp add: local_login_def Let_def split: option.splits sum.splits if_splits)
  from e(3) have "password u' \<noteq> None"
    using localVerify_has_hash [of cmp d n' pw' u'] by auto
  with e show "\<exists>n' pw' u'. or_else bu qu = Some n' \<and> or_else bp qp = Some pw'
             \<and> localVerify cmp d n' pw' = Inr u' \<and> password u' \<noteq> None
             \<and> snd (local_login cmp d bu qu bp qp) = Some (SessLocal (user_id u'))"
    by blast
next
  assume h: "password u = None \<and> getUserByUsername d n = Some u \<and> or_else bu qu = Some n"
  then show "status (fst (local_login cmp d bu qu bp qp)) = 401"
    by (auto simp add: local_login_def Let_def localVerify_def validatePassword_def
        split: option.splits)
  from h show "snd (local_login cmp d bu qu bp qp) = None"
    by (auto simp add: local_login_def Let_def localVerify_def validatePassword_def
        split: option.splits)
qed


theorem no_hash_no_local_login_witness:
  "\<not> validatePassword example_cmp carol ''secret123''
   \<and> localVerify example_cmp example_db ''carol'' ''secret123'' \<noteq> Inr carol
   \<and> password alice \<noteq> None
   \<and> (\<exists>u'. localVerify example_cmp example_db ''alice'' ''secret123'' = Inr u'
          \<and> password u' \<noteq> None
          \<and> snd (local_login example_cmp example_db (Some ''alice'') None
                    (Some ''secret123'') None) = Some (SessLocal (user_id u')))
   \<and> status (fst (local_login example_cmp [carol, erin] (Some ''erin'') None
                    (Some ''secret123'') None)) = 401
   \<and> snd (local_login example_cmp [carol, erin] (Some ''erin'') None
             (Some ''secret123'') None) = None"
proof -
  have pc: "password carol = None" by (simp add: carol_def)
  have va: "localVerify example_cmp example_db ''alice'' ''secret123'' = Inr alice"
    by (simp add: localVerify_def getUserByUsername_def validatePassword_def
        example_cmp_def example_db_def carol_def alice_def)
  have ok: "status (fst (local_login example_cmp example_db (Some ''alice'') None
                           (Some ''secret123'') None)) = 200"
    by (simp add: local_login_def or_else_def va Let_def alice_def)
  have ua: "or_else (Some ''alice'') None = Some ''alice''"
    and up: "or_else (Some ''secret123'') None = Some ''secret123''"
    and ue: "or_else (Some ''erin'') None = Some ''erin''"
    by (simp_all add: or_else_def)
  have pe: "password erin = None" by (simp add: erin_def)
  have ge: "getUserByUsername [carol, erin] ''erin'' = Some erin"
    by (simp add: getUserByUsername_def carol_def erin_def)
  note t1 = no_hash_no_local_login [where u = carol and cmp = example_cmp
      and pw = "''secret123''" and d = example_db and n = "''carol''",
      THEN conjunct1, rule_format, OF pc]
  note t2 = no_hash_no_local_login [where u = alice and cmp = example_cmp
      and pw = "''secret123''" and d = example_db and n = "''alice''",
      THEN conjunct2, THEN conjunct1, rule_format, OF va]
  note t3 = no_hash_no_local_login [where cmp = example_cmp and d = example_db
      and bu = "Some ''alice''" and qu = None and bp = "Some ''secret123''" and qp = None,
      THEN conjunct2, THEN conjunct2, THEN conjunct1, rule_format, OF disjI1, OF ok]
  note t4 = no_hash_no_local_login [where u = erin and cmp = example_cmp and d = "[carol, erin]"
      and n = "''erin''" and bu = "Some ''erin''" and qu = None
      and bp = "Some ''secret123''" and qp = None,
      THEN conjunct2, THEN conjunct2, THEN conjunct2, rule_format, OF conjI [OF pe conjI [OF ge ue]]]
  have c3: "\<exists>u'. localVerify example_cmp example_db ''alice'' ''secret123'' = Inr u'
          \<and> password u' \<noteq> None
          \<and> snd (local_login example_cmp example_db (Some ''alice'') None
                    (Some ''secret123'') None) = Some (SessLocal (user_id u'))"
    using t3 ua up by auto
  show ?thesis using t1 t2 c3 t4 by blast
qed

section \<open>Role assignment\<close>

lemma find_replace_same:
  "find (\<lambda>u. user_id u = i) d = Some old \<Longrightarrow> user_id row = i \<Longrightarrow>
   find (\<lambda>u. user_id u = i) (map (\<lambda>r. if user_id r = i then row else r) d) = Some row"
  by (induction d) (auto split: if_splits)

lemma find_append_new:
  "find (\<lambda>u. user_id u = i) d = None \<Longrightarrow> user_id row = i \<Longrightarrow>
   find (\<lambda>u. user_id u = i) (d @ [row]) = Some row"
  by (induction d) (auto split: if_splits)

lemma storage_upsertUser_existing:
  assumes "getUser d (up_id ud) = Some old"
  shows "case storage_upsertUser now ud d of
           Inl e \<Rightarrow> e = UniqueViolation
         | Inr (row, d') \<Rightarrow>
             getUser d' (up_id ud) = Some row
             \<and> row = old\<lparr>email := set_col (up_email ud) (email old),
                         firstName := set_col (up_firstName ud) (firstName old),
                         lastName := set_col (up_lastName ud) (lastName old),
                         profileImageUrl := set_col (up_profileImageUrl ud) (profileImageUrl old),
                         role := (case up_role ud of None \<Rightarrow> role old | Some r \<Rightarrow> r),
                         updatedAt := Some now\<rparr>"
proof -
  have i: "user_id old = up_id ud" using assms by (rule getUser_id)
  show ?thesis
    using assms i
    by (simp add: storage_upsertUser_def Let_def)
       (simp add: getUser_def find_replace_same)
qed

lemma storage_upsertUser_new:
  assumes "getUser d (up_id ud) = None"
  shows "case storage_upsertUser now ud d of
           Inl e \<Rightarrow> e = UniqueViolation
         | Inr (row, d') \<Rightarrow>
             getUser d' (up_id ud) = Some row
             \<and> role row = (case up_role ud of None \<Rightarrow> Client | Some r \<Rightarrow> r)"
  using assms
  by (simp add: storage_upsertUser_def Let_def)
     (simp add: getUser_def find_append_new)

lemma upsertUser_new:
  assumes "getUser d (c_sub cl) = None"
  shows "case upsertUser node_env now cl intendedRole d of
           Inl e \<Rightarrow> e = UniqueViolation
         | Inr d' \<Rightarrow>
             map_option role (getUser d' (c_sub cl))
               = Some (if getUsersByRole d Admin = [] then Admin
                       else case intendedRole of
                              Some ir \<Rightarrow> if node_env = ''development'' then ir else Client
                            | None \<Rightarrow> Client)"
proof -
  let ?r = "if getUsersByRole d Admin = [] then Admin
            else case intendedRole of
                   Some ir \<Rightarrow> if node_env = ''development'' then ir else Client
                 | None \<Rightarrow> Client"
  let ?ud = "\<lparr>up_id = c_sub cl, up_email = c_email cl, up_firstName = c_first_name cl,
              up_lastName = c_last_name cl, up_profileImageUrl = c_profile_image_url cl,
              up_role = Some ?r\<rparr>"
  have g: "getUser d (up_id ?ud) = None" using assms by simp
  have u: "upsertUser node_env now cl intendedRole d
             = map_sum (\<lambda>e. e) snd (storage_upsertUser now ?ud d)"
    using assms by (simp add: upsertUser_def Let_def)
  show ?thesis
    using storage_upsertUser_new [OF g, where now = now]
    unfolding u
    by (cases "storage_upsertUser now ?ud d") auto
qed

lemma handleDevLogin_new:
  assumes "or_else (or_else bu qu) (Some ''dev-user'') = Some uid"
    and "getUser d uid = None"
  shows "(status (fst (handleDevLogin now bu qu br qr d)) = 500
          \<and> fst (snd (handleDevLogin now bu qu br qr d)) = d)
         \<or> map_option role (getUser (fst (snd (handleDevLogin now bu qu br qr d))) uid)
             = Some (case (case or_else br qr of None \<Rightarrow> None | Some s \<Rightarrow> parse_role s) of
                       Some r \<Rightarrow> r
                     | None \<Rightarrow> if getUsersByRole d Admin = [] then Admin else Client)"
proof -
  let ?r = "case (case or_else br qr of None \<Rightarrow> None | Some s \<Rightarrow> parse_role s) of
              Some r \<Rightarrow> r
            | None \<Rightarrow> if getUsersByRole d Admin = [] then Admin else Client"
  let ?ud = "\<lparr>up_id = uid, up_email = Value (uid @ ''@dev.local''),
              up_firstName = Value ''Dev'', up_lastName = Value ''User'',
              up_profileImageUrl = Null, up_role = Some ?r\<rparr>"
  have g: "getUser d (up_id ?ud) = None" using assms by simp
  show ?thesis
    using storage_upsertUser_new [OF g, where now = now] assms
    by (cases "storage_upsertUser now ?ud d")
       (auto simp add: handleDevLogin_def Let_def split: sum.splits)
qed

text \<open>
  Claim C2.  The subject id of the claims already has a row.  Whatever the intended-role
  hint and the deployment mode, \<open>upsertUser\<close> either fails on the unique email constraint,
  writing nothing, or leaves a row for that id whose role is the stored role, whose id,
  username, password hash, organization, active flag and creation time are the stored
  ones, and whose email, first name, last name and profile image are set from the
  claims (a member the claims do not define keeps the stored value); the storage layer
  stamps the row's update time.
\<close>

theorem returning_user_keeps_role:
  assumes "getUser d (c_sub cl) = Some existing"
  shows "case upsertUser node_env now cl intendedRole d of
           Inl e \<Rightarrow> e = UniqueViolation
         | Inr d' \<Rightarrow>
             (\<exists>u'. getUser d' (c_sub cl) = Some u'
                \<and> role u' = role existing
                \<and> user_id u' = user_id existing
                \<and> username u' = username existing
                \<and> password u' = password existing
                \<and> organization u' = organization existing
                \<and> isActive u' = isActive existing
                \<and> createdAt u' = createdAt existing
                \<and> email u' = set_col (c_email cl) (email existing)
                \<and> firstName u' = set_col (c_first_name cl) (firstName existing)
                \<and> lastName u' = set_col (c_last_name cl) (lastName existing)
                \<and> profileImageUrl u' = set_col (c_profile_image_url cl) (profileImageUrl existing)
                \<and> updatedAt u' = Some now)"
proof -
  let ?ud = "\<lparr>up_id = c_sub cl, up_email = c_email cl, up_firstName = c_first_name cl,
              up_lastName = c_last_name cl, up_profileImageUrl = c_profile_image_url cl,
              up_role = Some (role existing)\<rparr>"
  have g: "getUser d (up_id ?ud) = Some existing" using assms by simp
  have u: "upsertUser node_env now cl intendedRole d
             = map_sum (\<lambda>e. e) snd (storage_upsertUser now ?ud d)"
    using assms by (simp add: upsertUser_def Let_def)
  show ?thesis
    using storage_upsertUser_existing [OF g, where now = now]
    unfolding u
    by (cases "storage_upsertUser now ?ud d") auto
qed

theorem returning_user_keeps_role_witness:
  "\<exists>d'. upsertUser ''development'' 1700009999 carol_claims (Some Client) example_db = Inr d'
      \<and> map_option role (getUser d' ''sub-carol'') = Some Admin
      \<and> map_option email (getUser d' ''sub-carol'') = Some (Some ''carol@new.example'')"
proof -
  have g: "getUser example_db (c_sub carol_claims) = Some carol"
    by (simp add: getUser_def example_db_def carol_claims_def carol_def)
  have s: "\<exists>d'. upsertUser ''development'' 1700009999 carol_claims (Some Client) example_db = Inr d'"
    by (simp add: upsertUser_def storage_upsertUser_def getUser_def email_conflict_def
        example_db_def carol_claims_def carol_def alice_def bob_def Let_def)
  then obtain d' where
    d: "upsertUser ''development'' 1700009999 carol_claims (Some Client) example_db = Inr d'" ..
  have c: "c_sub carol_claims = ''sub-carol''" "c_email carol_claims = Value ''carol@new.example''"
    "role carol = Admin"
    by (simp_all add: carol_claims_def carol_def)
  show ?thesis
    using returning_user_keeps_role [OF g, where node_env = "''development''"
        and now = 1700009999 and intendedRole = "Some Client"] d c
    by auto
qed

text \<open>
  Claim C3, as amended.  For a subject id without a row, the federated \<open>upsertUser\<close>
  creates the user as admin when no admin exists, whatever the hint and the deployment
  mode, and as client when an admin exists and there is no hint.  For a user id without
  a row, \<open>handleDevLogin\<close> creates the user with the role the request names when it names
  one of the three roles; when it names none, the user is admin when no admin exists and
  client otherwise.  Either path creates nothing when the insert fails on the unique
  email constraint.
\<close>

theorem new_user_roles:
  "(getUser d (c_sub cl) = None \<and> getUsersByRole d Admin = []
      \<longrightarrow> (case upsertUser node_env now cl intendedRole d of
             Inl e \<Rightarrow> e = UniqueViolation
           | Inr d' \<Rightarrow> map_option role (getUser d' (c_sub cl)) = Some Admin))
   \<and> (getUser d (c_sub cl) = None \<and> getUsersByRole d Admin \<noteq> []
      \<longrightarrow> (case upsertUser node_env now cl None d of
             Inl e \<Rightarrow> e = UniqueViolation
           | Inr d' \<Rightarrow> map_option role (getUser d' (c_sub cl)) = Some Client))
   \<and> (or_else (or_else bu qu) (Some ''dev-user'') = Some uid \<and> getUser d uid = None
        \<and> (case or_else br qr of None \<Rightarrow> None | Some s \<Rightarrow> parse_role s) = None
      \<longrightarrow> (status (fst (handleDevLogin now bu qu br qr d)) = 500
             \<and> fst (snd (handleDevLogin now bu qu br qr d)) = d)
          \<or> map_option role (getUser (fst (snd (handleDevLogin now bu qu br qr d))) uid)
              = Some (if getUsersByRole d Admin = [] then Admin else Client))
   \<and> (or_else (or_else bu qu) (Some ''dev-user'') = Some uid \<and> getUser d uid = None
        \<and> (case or_else br qr of None \<Rightarrow> None | Some s \<Rightarrow> parse_role s) = Some r
      \<longrightarrow> (status (fst (handleDevLogin now bu qu br qr d)) = 500
             \<and> fst (snd (handleDevLogin now bu qu br qr d)) = d)
          \<or> map_option role (getUser (fst (snd (handleDevLogin now bu qu br qr d))) uid)
              = Some r)"
proof (intro conjI impI)
  assume "getUser d (c_sub cl) = None \<and> getUsersByRole d Admin = []"
  then show "case upsertUser node_env now cl intendedRole d of
             Inl e \<Rightarrow> e = UniqueViolation
           | Inr d' \<Rightarrow> map_option role (getUser d' (c_sub cl)) = Some Admin"
    using upsertUser_new [where d = d and cl = cl and node_env = node_env and now = now
        and intendedRole = intendedRole] by (auto split: sum.splits)
next
  assume "getUser d (c_sub cl) = None \<and> getUsersByRole d Admin \<noteq> []"
  then show "case upsertUser node_env now cl None d of
             Inl e \<Rightarrow> e = UniqueViolation
           | Inr d' \<Rightarrow> map_option role (getUser d' (c_sub cl)) = Some Client"
    using upsertUser_new [where d = d and cl = cl and node_env = node_env and now = now
        and intendedRole = None] by (auto split: sum.splits)
next
  assume "or_else (or_else bu qu) (Some ''dev-user'') = Some uid \<and> getUser d uid = None
        \<and> (case or_else br qr of None \<Rightarrow> None | Some s \<Rightarrow> parse_role s) = None"
  then show "(status (fst (handleDevLogin now bu qu br qr d)) = 500
             \<and> fst (snd (handleDevLogin now bu qu br qr d)) = d)
          \<or> map_option role (getUser (fst (snd (handleDevLogin now bu qu br qr d))) uid)
              = Some (if getUsersByRole d Admin = [] then Admin else Client)"
    using handleDevLogin_new [where bu = bu and qu = qu and uid = uid and d = d and now = now
        and br = br and qr = qr] by auto
next
  assume "or_else (or_else bu qu) (Some ''dev-user'') = Some uid \<and> getUser d uid = None
        \<and> (case or_else br qr of None \<Rightarrow> None | Some s \<Rightarrow> parse_role s) = Some r"
  then show "(status (fst (handleDevLogin now bu qu br qr d)) = 500
             \<and> fst (snd (handleDevLogin now bu qu br qr d)) = d)
          \<or> map_option role (getUser (fst (snd (handleDevLogin now bu qu br qr d))) uid)
              = Some r"
    using handleDevLogin_new [where bu = bu and qu = qu and uid = uid and d = d and now = now
        and br = br and qr = qr] by auto
qed

theorem new_user_roles_witness:
  "(\<exists>d'. upsertUser ''production'' 1700009999 dave_claims (Some Client) [] = Inr d'
       \<and> map_option role (getUser d' ''sub-dave'') = Some Admin)
   \<and> (\<exists>d'. upsertUser ''production'' 1700009999 dave_claims None example_db = Inr d'
       \<and> map_option role (getUser d' ''sub-dave'') = Some Client)
   \<and> map_option role
        (getUser (fst (snd (handleDevLogin 1700009999 None None None None []))) ''dev-user'')
       = Some Admin
   \<and> map_option role
        (getUser (fst (snd (handleDevLogin 1700009999 (Some ''tester-1'') None None
                              (Some ''pentester'') example_db))) ''tester-1'')
       = Some Pentester"
proof -
  have sub: "c_sub dave_claims = ''sub-dave''" by (simp add: dave_claims_def)
  have h1: "getUser [] (c_sub dave_claims) = None \<and> getUsersByRole [] Admin = []"
    by (simp add: getUser_def getUsersByRole_def)
  have h2: "getUser example_db (c_sub dave_claims) = None
            \<and> getUsersByRole example_db Admin \<noteq> []"
    by (simp add: getUser_def getUsersByRole_def example_db_def dave_claims_def
        carol_def alice_def bob_def)
  have h3: "or_else (or_else None None) (Some ''dev-user'') = Some ''dev-user''
            \<and> getUser [] ''dev-user'' = None
            \<and> (case or_else None None of None \<Rightarrow> None | Some s \<Rightarrow> parse_role s) = None"
    by (simp add: or_else_def getUser_def)
  have h4: "or_else (or_else (Some ''tester-1'') None) (Some ''dev-user'') = Some ''tester-1''
            \<and> getUser example_db ''tester-1'' = None
            \<and> (case or_else None (Some ''pentester'') of None \<Rightarrow> None
                | Some s \<Rightarrow> parse_role s) = Some Pentester"
    by (simp add: or_else_def getUser_def parse_role_def example_db_def
        carol_def alice_def bob_def)
  have s1: "\<exists>d'. upsertUser ''production'' 1700009999 dave_claims (Some Client) [] = Inr d'"
    by (simp add: upsertUser_def storage_upsertUser_def getUser_def getUsersByRole_def
        email_conflict_def dave_claims_def Let_def)
  have s2: "\<exists>d'. upsertUser ''production'' 1700009999 dave_claims None example_db = Inr d'"
    by (simp add: upsertUser_def storage_upsertUser_def getUser_def getUsersByRole_def
        email_conflict_def dave_claims_def example_db_def carol_def alice_def bob_def Let_def)
  have s3: "status (fst (handleDevLogin 1700009999 None None None None [])) = 200"
    by (simp add: handleDevLogin_def storage_upsertUser_def getUser_def getUsersByRole_def
        email_conflict_def or_else_def Let_def)
  have s4: "status (fst (handleDevLogin 1700009999 (Some ''tester-1'') None None
                           (Some ''pentester'') example_db)) = 200"
    by (simp add: handleDevLogin_def storage_upsertUser_def getUser_def getUsersByRole_def
        email_conflict_def or_else_def parse_role_def example_db_def carol_def alice_def
        bob_def Let_def)
  note t1 = new_user_roles [where d = "[]" and cl = dave_claims and node_env = "''production''"
      and now = 1700009999 and intendedRole = "Some Client", THEN conjunct1, rule_format, OF h1]
  note t2 = new_user_roles [where d = example_db and cl = dave_claims
      and node_env = "''production''" and now = 1700009999,
      THEN conjunct2, THEN conjunct1, rule_format, OF h2]
  note t3 = new_user_roles [where d = "[]" and bu = None and qu = None and br = None
      and qr = None and uid = "''dev-user''" and now = 1700009999,
      THEN conjunct2, THEN conjunct2, THEN conjunct1, rule_format, OF h3]
  note t4 = new_user_roles [where d = example_db and bu = "Some ''tester-1''" and qu = None
      and br = None and qr = "Some ''pentester''" and uid = "''tester-1''" and r = Pentester
      and now = 1700009999,
      THEN conjunct2, THEN conjunct2, THEN conjunct2, rule_format, OF h4]
  have c1: "\<exists>d'. upsertUser ''production'' 1700009999 dave_claims (Some Client) [] = Inr d'
       \<and> map_option role (getUser d' ''sub-dave'') = Some Admin"
    using s1 t1 sub by auto
  have c2: "\<exists>d'. upsertUser ''production'' 1700009999 dave_claims None example_db = Inr d'
       \<and> map_option role (getUser d' ''sub-dave'') = Some Client"
    using s2 t2 sub by auto
  have c3: "map_option role
        (getUser (fst (snd (handleDevLogin 1700009999 None None None None []))) ''dev-user'')
       = Some Admin"
    using s3 t3 by (simp add: getUsersByRole_def)
  have c4: "map_option role
        (getUser (fst (snd (handleDevLogin 1700009999 (Some ''tester-1'') None None
                              (Some ''pentester'') example_db))) ''tester-1'')
       = Some Pentester"
    using s4 t4 by simp
  show ?thesis using c1 c2 c3 c4 by blast
qed

text \<open>
  Claim C3 as stated fails on the development login: on an empty table, where no admin
  exists, a request that names the role \<open>client\<close> creates the first user as client.
\<close>

theorem first_dev_user_counterexample:
  "getUsersByRole [] Admin = []
   \<and> status (fst (handleDevLogin 1700009999 None None (Some ''client'') None [])) = 200
   \<and> map_option role
        (getUser (fst (snd (handleDevLogin 1700009999 None None (Some ''client'') None [])))
           ''dev-user'')
       = Some Client"
  by (simp add: handleDevLogin_def storage_upsertUser_def getUser_def getUsersByRole_def
      email_conflict_def or_else_def parse_role_def Let_def)

section \<open>Password hashes in response bodies\<close>

lemma message_no_password: "\<not> json_has_key ''password'' (message m)"
  by (simp add: message_def)

lemma json_str_no_key: "\<not> json_has_key k (json_str x)"
  by (cases x) simp_all

lemma json_bool_no_key: "\<not> json_has_key k (json_bool x)"
  by (cases x) simp_all

lemma json_time_no_key: "\<not> json_has_key k (json_time x)"
  by (cases x) simp_all

lemma userWithoutPassword_no_password: "\<not> json_has_key ''password'' (userWithoutPassword u)"
  by (simp add: userWithoutPassword_def user_json_def json_str_no_key json_bool_no_key
      json_time_no_key)

lemma user_json_password: "json_has_key ''password'' (user_json u)"
  by (simp add: user_json_def)

lemma gate_respond_no_password:
  "unifiedIsAuthenticated env now req_user = (Respond r, x) \<Longrightarrow>
   \<not> json_has_key ''password'' (body r)"
  by (auto simp add: unifiedIsAuthenticated_def message_no_password
      split: option.splits principal.splits if_splits prod.splits)

lemma local_login_no_password:
  "\<not> json_has_key ''password'' (body (fst (local_login cmp d bu qu bp qp)))"
  by (auto simp add: local_login_def Let_def message_no_password json_str_no_key
      split: option.splits sum.splits prod.splits)

lemma admin_create_user_no_password:
  "\<not> json_has_key ''password'' (body (fst (admin_create_user hash new_id env now d req_user b)))"
proof (cases "unifiedIsAuthenticated env now req_user")
  case (fields v u' calls)
  show ?thesis
  proof (cases v)
    case Next
    with fields show ?thesis
      by (auto simp add: admin_create_user_def Let_def message_no_password
          userWithoutPassword_no_password
          split: option.splits sum.splits prod.splits)
  next
    case (Respond r)
    with fields gate_respond_no_password [of env now req_user r "(u', calls)"] show ?thesis
      by (simp add: admin_create_user_def)
  qed
qed

text \<open>
  Claim C1 at a failing input.  Alice has a stored password hash.  Her own
  \<open>GET /api/auth/user\<close> is answered with her whole row, and an admin's
  \<open>GET /api/users?role=pentester\<close> with the whole rows of the pentesters; both bodies
  have the \<open>password\<close> member.  (The bodies of \<open>POST /api/local-login\<close> and of
  \<open>POST /api/admin/create-user\<close> never have it: \<open>local_login_no_password\<close>,
  \<open>admin_create_user_no_password\<close>.)
\<close>

theorem password_hash_in_responses:
  "password alice = Some ''bcrypt:secret123''
   \<and> get_auth_user provider_ok 1700001000 example_db (Some (LocalUser alice))
       = \<lparr>status = 200, body = user_json alice\<rparr>
   \<and> json_has_key ''password''
        (body (get_auth_user provider_ok 1700001000 example_db (Some (LocalUser alice))))
   \<and> get_users provider_ok 1700001000 example_db
        (Some (OIDCUser (createOIDCUser carol_tokens))) (Some ''pentester'')
       = \<lparr>status = 200, body = JArr [user_json alice]\<rparr>
   \<and> json_has_key ''password''
        (body (get_users provider_ok 1700001000 example_db
                 (Some (OIDCUser (createOIDCUser carol_tokens))) (Some ''pentester'')))"
proof -
  have p: "password alice = Some ''bcrypt:secret123''" by (simp add: alice_def)
  have a: "get_auth_user provider_ok 1700001000 example_db (Some (LocalUser alice))
       = \<lparr>status = 200, body = user_json alice\<rparr>"
    by (simp add: get_auth_user_def unifiedIsAuthenticated_def getUser_def example_db_def
        alice_def carol_def)
  have g: "unifiedIsAuthenticated provider_ok 1700001000
             (Some (OIDCUser (createOIDCUser carol_tokens)))
           = (Next, Some (OIDCUser (createOIDCUser carol_tokens)), [])"
    by (simp add: unifiedIsAuthenticated_def createOIDCUser_def carol_tokens_def
        carol_claims_def)
  have i: "getUserId (Some (OIDCUser (createOIDCUser carol_tokens))) = Some ''sub-carol''"
    by (simp add: createOIDCUser_def carol_tokens_def carol_claims_def)
  have c: "getUser example_db ''sub-carol'' = Some carol"
    by (simp add: getUser_def example_db_def carol_def)
  have r: "role carol = Admin" by (simp add: carol_def)
  have f: "getUsersByRole example_db Pentester = [alice]"
    by (simp add: getUsersByRole_def example_db_def carol_def alice_def bob_def)
  have u: "get_users provider_ok 1700001000 example_db
        (Some (OIDCUser (createOIDCUser carol_tokens))) (Some ''pentester'')
       = \<lparr>status = 200, body = JArr [user_json alice]\<rparr>"
    by (simp add: get_users_def g i c r f parse_role_def del: getUserId.simps)
  show ?thesis
    by (simp add: p a u user_json_password)
qed

end
